theory Spec2Isabelle
  imports Complex_Main "HOL-Library.Log_Nat"
begin

section \<open>The Tour component (typings/components/tour/index.js)\<close>

text \<open>
  The component keeps one piece of state, \<open>targetPosition\<close>: the object
  \<open>{left, top, width, height}\<close> that the measurement callback stores. The
  constructor sets \<open>this.state = {}\<close>, so the field is \<open>undefined\<close> (here
  \<open>None\<close>) until the first measurement. Measured values are JavaScript numbers
  delivered by the host; the component copies them and never computes with them, so
  they are modelled as rationals (every finite double is one).
\<close>

record targetPosition =
  left :: rat
  top_edge :: rat
  width :: rat
  height :: rat

record state =
  targetPosition :: "targetPosition option"

text \<open>
  A JavaScript number: the finite doubles as rationals (the two zeros identified),
  the two infinities and NaN.
\<close>

datatype number = NaN | PInf | NInf | Fin rat

text \<open>
  What React puts in \<open>props.children\<close>: nothing (\<open>undefined\<close>) when the component
  has no child, the child itself when it has one, and an array when it has several or
  is handed an array. A child is a React element (\<open>'e\<close> is their type) or a piece of
  text.
\<close>

datatype 'e node = Element 'e | Text string

datatype 'e children = Absent | Single "'e node" | Array "'e node list"

text \<open>
  The props. \<open>'s\<close> is the type of style overrides and \<open>'h\<close> of callbacks.
\<close>

record ('e, 's, 'h) props =
  visible :: bool
  overlayColor :: string
  overlayOpacity :: number
  message :: string
  messageStyle :: 's
  onClose :: 'h
  children :: "'e children"

text \<open>
  The module imports the component does not define: \<open>Constants.screenWidth\<close> and
  \<open>Colors.rgba\<close> (from \<open>../../helpers\<close> and \<open>../../style\<close>) are taken as
  parameters.
\<close>

record env =
  screenWidth :: rat
  rgba :: "string \<Rightarrow> number \<Rightarrow> string"

text \<open>
  The errors: the one \<open>React.Children.only\<close> throws, and the TypeError of reading a
  property of \<open>undefined\<close> or of converting a Symbol or a BigInt to a number.
\<close>

datatype error = InvalidChildCount | TypeError

text \<open>
  \<open>React.Children.only(children)\<close> returns \<open>children\<close> when it is itself one React
  element and throws otherwise: for no child, for a text, and for every array, also
  an array that holds one element. \<open>React.Children.count\<close> is the number of children.
\<close>

definition Children_only :: "'e children \<Rightarrow> error + 'e" where
  "Children_only cs =
     (case cs of Single (Element c) \<Rightarrow> Inr c | _ \<Rightarrow> Inl InvalidChildCount)"

definition Children_count :: "'e children \<Rightarrow> nat" where
  "Children_count cs = (case cs of Absent \<Rightarrow> 0 | Single _ \<Rightarrow> 1 | Array ns \<Rightarrow> length ns)"

definition single_element :: "'e children \<Rightarrow> bool" where
  "single_element cs = (case cs of Single (Element _) \<Rightarrow> True | _ \<Rightarrow> False)"

text \<open>
  \<open>React.cloneElement(element, extra)\<close>: the element with the names of the props
  injected into the copy.
\<close>

record 'e cloned =
  element :: 'e
  injected :: "string list"

definition cloneElement :: "'e \<Rightarrow> string list \<Rightarrow> 'e cloned" where
  "cloneElement e extra = \<lparr>element = e, injected = extra\<rparr>"

definition constructor_state :: state where
  "constructor_state = \<lparr>targetPosition = None\<rparr>"

definition renderTarget :: "('e, 's, 'h) props \<Rightarrow> error + 'e cloned" where
  "renderTarget p =
     (case Children_only (children p) of
        Inl e \<Rightarrow> Inl e
      | Inr target \<Rightarrow> Inr (cloneElement target [''onLayout'', ''ref'']))"

text \<open>
  \<open>onTargetLayout\<close> asks the host to measure the target; the host later calls the
  arrow function with \<open>(x, y, width, height)\<close>, which stores them with
  \<open>setState\<close>. The model is that callback: the state after the host has delivered
  the four numbers.
\<close>

definition onTargetLayout :: "rat \<Rightarrow> rat \<Rightarrow> rat \<Rightarrow> rat \<Rightarrow> state \<Rightarrow> state" where
  "onTargetLayout x y w h st =
     st\<lparr>targetPosition := Some \<lparr>left = x, top_edge = y, width = w, height = h\<rparr>\<rparr>"

definition renderTargetClone :: "('e, 's, 'h) props \<Rightarrow> error + 'e cloned" where
  "renderTargetClone p =
     (case Children_only (children p) of
        Inl e \<Rightarrow> Inl e
      | Inr target \<Rightarrow> Inr (cloneElement target []))"

text \<open>The message panel: an absolutely positioned view with the text and the button.\<close>

record ('s, 'h) message_panel =
  bottom :: rat
  panel_width :: rat
  text_of :: string
  text_style :: 's
  button_label :: string
  onPress :: 'h

definition renderMessage ::
  "env \<Rightarrow> ('e, 's, 'h) props \<Rightarrow> state \<Rightarrow> error + ('s, 'h) message_panel" where
  "renderMessage ev p st =
     (case targetPosition st of
        None \<Rightarrow> Inl TypeError
      | Some tp \<Rightarrow>
          Inr \<lparr>bottom = height tp, panel_width = screenWidth ev, text_of = message p,
               text_style = messageStyle p, button_label = ''Got It!'',
               onPress = onClose p\<rparr>)"

text \<open>\<open>styles.glowWrapper\<close>: the four absolute offsets and the corner radius.\<close>

record glow_style =
  glow_top :: rat
  glow_left :: rat
  glow_right :: rat
  glow_bottom :: rat
  borderRadius :: rat

definition glowWrapper :: glow_style where
  "glowWrapper =
     \<lparr>glow_top = - 4, glow_left = - 4, glow_right = - 4, glow_bottom = - 4,
      borderRadius = 999\<rparr>"

text \<open>
  What \<open>render\<close> returns. \<open>overlay\<close> is the view guarded by
  \<open>shouldShowTour && (...)\<close>: its own offsets, the glow, the clone and the message.
\<close>

record ('e, 's, 'h) overlay_view =
  style_top :: rat
  style_left :: rat
  glow :: glow_style
  clone :: "'e cloned"
  panel :: "('s, 'h) message_panel"

record ('e, 's, 'h) tour_view =
  target :: "'e cloned"
  modal_visible :: bool
  backgroundColor :: string
  overlay :: "('e, 's, 'h) overlay_view option"

definition render ::
  "env \<Rightarrow> ('e, 's, 'h) props \<Rightarrow> state \<Rightarrow> error + ('e, 's, 'h) tour_view" where
  "render ev p st =
     (let shouldShowTour = (visible p \<and> targetPosition st \<noteq> None) in
      case renderTarget p of
        Inl e \<Rightarrow> Inl e
      | Inr t \<Rightarrow>
          (let bg = rgba ev (overlayColor p) (overlayOpacity p) in
           if shouldShowTour then
             (case targetPosition st of
                None \<Rightarrow> Inl TypeError
              | Some tp \<Rightarrow>
                  (case renderTargetClone p of
                     Inl e \<Rightarrow> Inl e
                   | Inr c \<Rightarrow>
                       (case renderMessage ev p st of
                          Inl e \<Rightarrow> Inl e
                        | Inr m \<Rightarrow>
                            Inr \<lparr>target = t, modal_visible = shouldShowTour,
                                 backgroundColor = bg,
                                 overlay = Some \<lparr>style_top = top_edge tp,
                                                 style_left = left tp,
                                                 glow = glowWrapper, clone = c,
                                                 panel = m\<rparr>\<rparr>)))
           else
             Inr \<lparr>target = t, modal_visible = shouldShowTour, backgroundColor = bg,
                  overlay = None\<rparr>))"

text \<open>
  Whether a call of \<open>render\<close> put the overlay on screen: a call that throws renders
  nothing.
\<close>

definition overlay_rendered :: "error + ('e, 's, 'h) tour_view \<Rightarrow> bool" where
  "overlay_rendered r = (case r of Inl _ \<Rightarrow> False | Inr v \<Rightarrow> overlay v \<noteq> None)"

text \<open>
  Absolute positioning as the host lays it out: the offsets of an absolutely
  positioned view are measured from the edges of its parent. The overlay view is a
  child of the full-screen backdrop, whose origin is the window's, so the overlay
  (and the clone inside it) sits at \<open>(style_left, style_top)\<close> and the glow is
  shifted from there by the offsets of \<open>styles.glowWrapper\<close>.
\<close>

definition clone_position :: "('e, 's, 'h) overlay_view \<Rightarrow> rat \<times> rat" where
  "clone_position ov = (style_left ov, style_top ov)"

definition glow_position :: "('e, 's, 'h) overlay_view \<Rightarrow> rat \<times> rat" where
  "glow_position ov =
     (style_left ov + glow_left (glow ov), style_top ov + glow_top (glow ov))"

text \<open>
  The geometry a call of \<open>render\<close> put on screen: the glow's position, the clone's
  position and the message panel's bottom offset, when the overlay is there.
\<close>

definition geometry ::
  "error + ('e, 's, 'h) tour_view \<Rightarrow> ((rat \<times> rat) \<times> (rat \<times> rat) \<times> rat) option" where
  "geometry r =
     (case r of
        Inl _ \<Rightarrow> None
      | Inr v \<Rightarrow>
          (case overlay v of
             None \<Rightarrow> None
           | Some ov \<Rightarrow> Some (glow_position ov, clone_position ov, bottom (panel ov))))"

text \<open>
  A mounted component: its current props and its state. When the parent passes
  another \<open>visible\<close>, React keeps the instance and its state and calls \<open>render\<close>
  again; the class has no lifecycle method that reads props into state, so
  \<open>setState\<close> in the measurement callback is the only writer of the state.
\<close>

record ('e, 's, 'h) mounted =
  inst_props :: "('e, 's, 'h) props"
  inst_state :: state

definition set_visible :: "bool \<Rightarrow> ('e, 's, 'h) mounted \<Rightarrow> ('e, 's, 'h) mounted" where
  "set_visible v i = i\<lparr>inst_props := (inst_props i)\<lparr>visible := v\<rparr>\<rparr>"

fun toggle_visible :: "bool list \<Rightarrow> ('e, 's, 'h) mounted \<Rightarrow> ('e, 's, 'h) mounted" where
  "toggle_visible [] i = i"
| "toggle_visible (v # vs) i = toggle_visible vs (set_visible v i)"

definition render_instance ::
  "env \<Rightarrow> ('e, 's, 'h) mounted \<Rightarrow> error + ('e, 's, 'h) tour_view" where
  "render_instance ev i = render ev (inst_props i) (inst_state i)"

section \<open>The Card component (src/components/card/index.js)\<close>

text \<open>
  \<open>calcImagePosition\<close> reads two props, \<open>row\<close> and \<open>children\<close>;
  \<open>React.Children.count\<close> is the number of children. The index is an integer, and
  \<open>childrenCount - 1\<close> is \<open>-1\<close> for a card without children.
\<close>

record 'c card_props =
  row :: bool
  card_children :: "'c list"

definition calcImagePosition :: "'c card_props \<Rightarrow> int \<Rightarrow> string list" where
  "calcImagePosition p childIndex =
     (let childrenCount = int (length (card_children p));
          position = [];
          position = (if childIndex = 0
                      then position @ [if row p then ''left'' else ''top'']
                      else position);
          position = (if childIndex = childrenCount - 1
                      then position @ [if row p then ''right'' else ''bottom'']
                      else position)
      in position)"

section \<open>Colors.alpha (src/style/colors.js)\<close>

subsection \<open>JavaScript numbers\<close>

text \<open>
  Rounding a rational to the nearest double (binary64, ties to even): \<open>expo x\<close> is
  the binary exponent of a positive \<open>x\<close>, \<open>ulp x\<close> the spacing of the doubles
  around \<open>x\<close> (that of the subnormals below \<open>2 powi - 1022\<close>), and a result of
  magnitude \<open>2 ^ 1024\<close> or more overflows to an infinity.
\<close>

definition expo :: "rat \<Rightarrow> int" where
  "expo x = (let (p, q) = quotient_of x; k = bitlen p - bitlen q
             in if 2 powi k \<le> x then k else k - 1)"

definition round_even :: "rat \<Rightarrow> int" where
  "round_even t = (let f = \<lfloor>t\<rfloor>; d = t - of_int f
                   in if d < 1 / 2 then f else if 1 / 2 < d then f + 1
                      else if even f then f else f + 1)"

definition ulp :: "rat \<Rightarrow> rat" where
  "ulp x = 2 powi (max (expo \<bar>x\<bar>) (- 1022) - 52)"

definition fl :: "rat \<Rightarrow> number" where
  "fl x = (if x = 0 then Fin 0
           else let u = ulp x; y = of_int (round_even (x / u)) * u
                in if 2 ^ 1024 \<le> \<bar>y\<bar> then (if 0 < x then PInf else NInf) else Fin y)"

text \<open>The global \<open>isNaN\<close>, the comparison \<open>a < b\<close> and the product \<open>a * b\<close>.\<close>

definition isNaN :: "number \<Rightarrow> bool" where
  "isNaN v = (case v of NaN \<Rightarrow> True | _ \<Rightarrow> False)"

fun js_less :: "number \<Rightarrow> number \<Rightarrow> bool" where
  "js_less NaN _ = False"
| "js_less _ NaN = False"
| "js_less (Fin x) (Fin y) = (x < y)"
| "js_less NInf NInf = False"
| "js_less NInf _ = True"
| "js_less _ NInf = False"
| "js_less PInf _ = False"
| "js_less _ PInf = True"

definition sign_inf :: "bool \<Rightarrow> number" where
  "sign_inf positive = (if positive then PInf else NInf)"

fun js_times :: "number \<Rightarrow> number \<Rightarrow> number" where
  "js_times NaN _ = NaN"
| "js_times _ NaN = NaN"
| "js_times (Fin x) (Fin y) = fl (x * y)"
| "js_times (Fin x) PInf = (if x = 0 then NaN else sign_inf (0 < x))"
| "js_times (Fin x) NInf = (if x = 0 then NaN else sign_inf (x < 0))"
| "js_times PInf (Fin y) = (if y = 0 then NaN else sign_inf (0 < y))"
| "js_times NInf (Fin y) = (if y = 0 then NaN else sign_inf (y < 0))"
| "js_times PInf PInf = PInf"
| "js_times PInf NInf = NInf"
| "js_times NInf PInf = NInf"
| "js_times NInf NInf = PInf"

text \<open>
  \<open>Math.round\<close>: the nearest integer, a tie going towards \<open>+\<infinity>\<close>; NaN and the
  infinities are returned as they are.
\<close>

definition Math_round :: "number \<Rightarrow> number" where
  "Math_round v = (case v of Fin x \<Rightarrow> Fin (of_int \<lfloor>x + 1 / 2\<rfloor>) | _ \<Rightarrow> v)"

subsection \<open>Strings\<close>

text \<open>\<open>s.slice(-k)\<close>: the last \<open>k\<close> characters of \<open>s\<close>, all of it when it is shorter.\<close>

definition slice_last :: "nat \<Rightarrow> string \<Rightarrow> string" where
  "slice_last k s = drop (length s - k) s"

subsection \<open>The imported decToHex\<close>

text \<open>
  \<open>BaseConvert\<close> is the package all-your-base, which is not part of the repository.
  Its \<open>decToHex\<close> writes a positive integer in base 16 with the upper-case digits,
  most significant first and without padding, and returns the empty string for 0,
  for a negative number and for NaN: 255 gives \<open>FF\<close>, 26 gives \<open>1A\<close>, 10 gives
  \<open>A\<close>. \<open>alpha\<close> hands it integers from 0 to 255 only; the value the definition
  takes at a fraction or an infinity is used nowhere.
\<close>

definition hex_digit :: "nat \<Rightarrow> char" where
  "hex_digit d = ''0123456789ABCDEF'' ! d"

function hex_digits :: "nat \<Rightarrow> string" where
  "hex_digits n =
     (if n = 0 then [] else hex_digits (n div 16) @ [hex_digit (n mod 16)])"
  by pat_completeness auto
termination
  by (relation "measure (\<lambda>n. n)") auto

declare hex_digits.simps [simp del]

definition BaseConvert_decToHex :: "number \<Rightarrow> string" where
  "BaseConvert_decToHex v = (case v of Fin x \<Rightarrow> hex_digits (nat \<lfloor>x\<rfloor>) | _ \<Rightarrow> [])"

subsection \<open>The function\<close>

text \<open>
  JavaScript does not type the second argument. The values told apart here are
  \<open>undefined\<close> (also an argument left out), a number, and the two kinds of primitive
  value that cannot be converted to a number, a BigInt and a Symbol: \<open>ToNumber\<close>,
  which the global \<open>isNaN\<close> applies to its argument first, throws a TypeError for
  them.
\<close>

datatype jsvalue = Undefined | Number number | BigInt int | Symbol

definition ToNumber :: "jsvalue \<Rightarrow> error + number" where
  "ToNumber v =
     (case v of
        Undefined \<Rightarrow> Inr NaN
      | Number n \<Rightarrow> Inr n
      | BigInt _ \<Rightarrow> Inl TypeError
      | Symbol \<Rightarrow> Inl TypeError)"

text \<open>
  \<open>Colors.alpha\<close>, with the imported \<open>decToHex\<close> as its first parameter. The default
  parameter value 1 replaces \<open>undefined\<close>; the guard's \<open>isNaN(opacity)\<close> is evaluated
  first, so a value that has no number never reaches the comparisons.
\<close>

definition alpha :: "(number \<Rightarrow> string) \<Rightarrow> string \<Rightarrow> jsvalue \<Rightarrow> error + string" where
  "alpha decToHex color opacity_arg =
     (let opacity = (case opacity_arg of Undefined \<Rightarrow> Number (Fin 1) | v \<Rightarrow> v) in
      case ToNumber opacity of
        Inl e \<Rightarrow> Inl e
      | Inr n \<Rightarrow>
          if isNaN n \<or> js_less (Fin 1) n \<or> js_less n (Fin 0) then Inr color
          else
            (let a = Math_round (js_times n (Fin 255));
                 a = decToHex a;
                 a = slice_last 2 (''00'' @ a)
             in Inr (color @ a)))"


section \<open>Concrete inputs\<close>

text \<open>
  A host with a screen 375 units wide whose \<open>rgba\<close> returns the colour it is given,
  and the props of a visible tour around one element.
\<close>

definition example_env :: env where
  "example_env = \<lparr>screenWidth = 375, rgba = (\<lambda>c opacity. c)\<rparr>"

definition example_props :: "(nat, unit, unit) props" where
  "example_props =
     \<lparr>visible = True, overlayColor = ''#ffffff'', overlayOpacity = Fin 1,
      message = ''Tap here'', messageStyle = (), onClose = (), children = Single (Element 0)\<rparr>"

section \<open>Properties of the Tour component\<close>

subsection \<open>What a call of render returns\<close>

lemma single_element_Single [simp]: "single_element (Single (Element c))"
  by (simp add: single_element_def)

lemma render_Inr_overlay:
  assumes "render ev p st = Inr v"
  shows "(overlay v \<noteq> None) = (visible p \<and> targetPosition st \<noteq> None)"
    and "modal_visible v = (visible p \<and> targetPosition st \<noteq> None)"
  using assms
  by (auto simp: render_def Let_def split: sum.splits option.splits if_splits)

lemma render_total:
  assumes "children p = Single (Element c)"
  shows "\<exists>v. render ev p st = Inr v"
  using assms
  by (auto simp: render_def Let_def renderTarget_def renderTargetClone_def renderMessage_def
      Children_only_def split: option.splits)

lemma render_measured:
  "render ev (p\<lparr>visible := True, children := Single (Element c)\<rparr>) (st\<lparr>targetPosition := Some tp\<rparr>) =
     Inr \<lparr>target = cloneElement c [''onLayout'', ''ref''], modal_visible = True,
          backgroundColor = rgba ev (overlayColor p) (overlayOpacity p),
          overlay = Some \<lparr>style_top = top_edge tp, style_left = left tp,
                          glow = glowWrapper, clone = cloneElement c [],
                          panel = \<lparr>bottom = height tp, panel_width = screenWidth ev,
                                   text_of = message p, text_style = messageStyle p,
                                   button_label = ''Got It!'', onPress = onClose p\<rparr>\<rparr>\<rparr>"
  by (simp add: render_def renderTarget_def renderTargetClone_def renderMessage_def
      Children_only_def)


lemma overlay_rendered_iff:
  assumes "single_element (children p)"
  shows "overlay_rendered (render ev p st) = (visible p \<and> targetPosition st \<noteq> None)"
proof -
  from assms obtain c where "children p = Single (Element c)"
    by (auto simp: single_element_def split: children.splits node.splits)
  from render_total [OF this, of ev st] obtain v where v: "render ev p st = Inr v" ..
  then show ?thesis using render_Inr_overlay(1) [OF v] by (simp add: overlay_rendered_def)
qed

lemma toggle_visible_state [simp]:
  "inst_state (toggle_visible vs i) = inst_state i"
  by (induction vs arbitrary: i) (simp_all add: set_visible_def)

lemma toggle_visible_children [simp]:
  "children (inst_props (toggle_visible vs i)) = children (inst_props i)"
  by (induction vs arbitrary: i) (simp_all add: set_visible_def)

lemma toggle_visible_last [simp]:
  "visible (inst_props (toggle_visible (vs @ [v]) i)) = v"
  by (induction vs arbitrary: i) (simp_all add: set_visible_def)

lemma set_visible_state [simp]: "inst_state (set_visible b i) = inst_state i"
  by (simp add: set_visible_def)

lemma set_visible_children [simp]:
  "children (inst_props (set_visible b i)) = children (inst_props i)"
  by (simp add: set_visible_def)

lemma overlay_set_visible:
  assumes "targetPosition (inst_state i) \<noteq> None" "single_element (children (inst_props i))"
  shows "overlay_rendered (render_instance ev (set_visible b i)) = b"
  using assms by (simp add: render_instance_def overlay_rendered_iff) (simp add: set_visible_def)

text \<open>
  Claim C1. A call of \<open>render\<close> that returns shows the overlay (and opens the modal)
  exactly when \<open>visible\<close> is true and a measurement has been stored. With one
  element as its child \<open>render\<close> always returns, so there the overlay is on screen
  exactly under that condition; and whatever the props, a state without a measurement never
  shows it (a call that throws renders nothing).
\<close>

theorem tour_overlay_iff_visible_and_measured:
  "(\<forall>v. render ev p st = Inr v \<longrightarrow>
        (overlay v \<noteq> None) = (visible p \<and> targetPosition st \<noteq> None) \<and>
        modal_visible v = (visible p \<and> targetPosition st \<noteq> None))
   \<and> (single_element (children p) \<longrightarrow>
        overlay_rendered (render ev p st) = (visible p \<and> targetPosition st \<noteq> None))
   \<and> (targetPosition st = None \<longrightarrow> \<not> overlay_rendered (render ev p st))"
proof (intro conjI allI impI)
  fix v assume "render ev p st = Inr v"
  then show "(overlay v \<noteq> None) = (visible p \<and> targetPosition st \<noteq> None)"
    "modal_visible v = (visible p \<and> targetPosition st \<noteq> None)"
    by (rule render_Inr_overlay)+
next
  assume "single_element (children p)"
  then show "overlay_rendered (render ev p st) = (visible p \<and> targetPosition st \<noteq> None)"
    by (rule overlay_rendered_iff)
next
  assume "targetPosition st = None"
  then show "\<not> overlay_rendered (render ev p st)"
    using render_Inr_overlay(1) [of ev p st]
    by (cases "render ev p st") (simp_all add: overlay_rendered_def)
qed

theorem tour_overlay_iff_visible_and_measured_witness:
  "single_element (children example_props)
   \<and> overlay_rendered (render example_env example_props
        (onTargetLayout 10 20 100 50 constructor_state))
   \<and> \<not> overlay_rendered (render example_env (example_props\<lparr>visible := False\<rparr>)
        (onTargetLayout 10 20 100 50 constructor_state))
   \<and> visible example_props \<and> targetPosition constructor_state = None
   \<and> \<not> overlay_rendered (render example_env example_props constructor_state)
   \<and> (\<exists>v. render example_env example_props constructor_state = Inr v
        \<and> overlay v = None \<and> \<not> modal_visible v)"
  using tour_overlay_iff_visible_and_measured
      [of example_env example_props "onTargetLayout 10 20 100 50 constructor_state"]
    tour_overlay_iff_visible_and_measured
      [of example_env "example_props\<lparr>visible := False\<rparr>"
          "onTargetLayout 10 20 100 50 constructor_state"]
    tour_overlay_iff_visible_and_measured [of example_env example_props constructor_state]
    render_total [of example_props 0 example_env constructor_state]
  by (auto simp: example_props_def onTargetLayout_def constructor_state_def)


text \<open>
  Claim C3. The message panel's bottom offset is the height of the stored box, the
  same whatever the box's left, top and width are; a height of 50 gives the offset
  50; and that panel is the one the overlay carries.
\<close>

theorem tour_message_bottom_is_height:
  "(\<exists>m. renderMessage ev p (st\<lparr>targetPosition := Some tp\<rparr>) = Inr m \<and> bottom m = height tp)
   \<and> renderMessage ev p (st\<lparr>targetPosition := Some (tp\<lparr>left := l, top_edge := t, width := w\<rparr>)\<rparr>)
       = renderMessage ev p (st\<lparr>targetPosition := Some tp\<rparr>)
   \<and> (\<exists>m. renderMessage ev p
          (st\<lparr>targetPosition := Some \<lparr>left = l, top_edge = t, width = w, height = 50\<rparr>\<rparr>) = Inr m
        \<and> bottom m = 50)
   \<and> (\<exists>v ov. render ev (p\<lparr>visible := True, children := Single (Element c)\<rparr>)
                 (st\<lparr>targetPosition := Some tp\<rparr>) = Inr v
        \<and> overlay v = Some ov \<and> bottom (panel ov) = height tp)"
  by (simp add: renderMessage_def render_measured)

text \<open>
  Claim C4. Delivering the same measurement twice leaves the state that delivering it
  once leaves, so \<open>render\<close> returns the same view and the same geometry; a
  measurement replaces whatever box was stored before it.
\<close>

theorem tour_onTargetLayout_idempotent:
  "onTargetLayout x y w h (onTargetLayout x y w h st) = onTargetLayout x y w h st
   \<and> render ev p (onTargetLayout x y w h (onTargetLayout x y w h st))
       = render ev p (onTargetLayout x y w h st)
   \<and> geometry (render ev p (onTargetLayout x y w h (onTargetLayout x y w h st)))
       = geometry (render ev p (onTargetLayout x y w h st))
   \<and> onTargetLayout x y w h (onTargetLayout x' y' w' h' st) = onTargetLayout x y w h st"
  by (simp add: onTargetLayout_def)

text \<open>
  Claim C5. Changing \<open>visible\<close> any number of times leaves the state, and so the
  stored box, as it was. Once a box is stored (and the child is one element), the overlay
  is on screen after the changes exactly when the last value of \<open>visible\<close> is true:
  it shows for true, hides for false and shows again for true, with no measurement
  in between.
\<close>

theorem tour_visibility_toggle_keeps_measurement:
  "inst_state (toggle_visible vs i) = inst_state i
   \<and> (targetPosition (inst_state i) \<noteq> None \<and> single_element (children (inst_props i)) \<longrightarrow>
        overlay_rendered (render_instance ev (toggle_visible (vs @ [v]) i)) = v)
   \<and> (targetPosition (inst_state i) \<noteq> None \<and> single_element (children (inst_props i)) \<longrightarrow>
        overlay_rendered (render_instance ev (set_visible True i))
        \<and> \<not> overlay_rendered (render_instance ev (set_visible False (set_visible True i)))
        \<and> overlay_rendered
            (render_instance ev (set_visible True (set_visible False (set_visible True i)))))"
proof (intro conjI impI)
  show "inst_state (toggle_visible vs i) = inst_state i" by simp
next
  assume "targetPosition (inst_state i) \<noteq> None \<and> single_element (children (inst_props i))"
  then show "overlay_rendered (render_instance ev (toggle_visible (vs @ [v]) i)) = v"
    by (simp add: render_instance_def overlay_rendered_iff)
next
  assume "targetPosition (inst_state i) \<noteq> None \<and> single_element (children (inst_props i))"
  then show "overlay_rendered (render_instance ev (set_visible True i))"
    "\<not> overlay_rendered (render_instance ev (set_visible False (set_visible True i)))"
    "overlay_rendered
       (render_instance ev (set_visible True (set_visible False (set_visible True i))))"
    by (simp_all add: overlay_set_visible)
qed

theorem tour_visibility_toggle_keeps_measurement_witness:
  "targetPosition (inst_state \<lparr>inst_props = example_props,
      inst_state = onTargetLayout 10 20 100 50 constructor_state\<rparr>) \<noteq> None
   \<and> single_element (children example_props)
   \<and> overlay_rendered (render_instance example_env (toggle_visible [False, True]
       \<lparr>inst_props = example_props,
        inst_state = onTargetLayout 10 20 100 50 constructor_state\<rparr>))
   \<and> \<not> overlay_rendered (render_instance example_env (toggle_visible [True, False]
       \<lparr>inst_props = example_props,
        inst_state = onTargetLayout 10 20 100 50 constructor_state\<rparr>))"
  using tour_visibility_toggle_keeps_measurement
    [of "[False]" "\<lparr>inst_props = example_props,
        inst_state = onTargetLayout 10 20 100 50 constructor_state\<rparr>" example_env True]
    tour_visibility_toggle_keeps_measurement
    [of "[True]" "\<lparr>inst_props = example_props,
        inst_state = onTargetLayout 10 20 100 50 constructor_state\<rparr>" example_env False]
  by (simp add: example_props_def onTargetLayout_def)

text \<open>
  Claim C6, as amended. \<open>renderTarget\<close> and \<open>renderTargetClone\<close> succeed exactly when
  \<open>props.children\<close> is itself one React element, and then return its copy (the first
  with the layout hook and the ref injected). In every other case (no child, a text,
  an array of children of any length) both fail with the child-count error and in no
  other way, and \<open>render\<close> fails with it too. In particular they fail whenever the
  number of children is not one.
\<close>

theorem tour_single_element_required:
  "(renderTarget p = Inl InvalidChildCount) = (\<not> single_element (children p))
   \<and> (renderTargetClone p = Inl InvalidChildCount) = (\<not> single_element (children p))
   \<and> (renderTarget p = Inl e \<or> renderTargetClone p = Inl e \<longrightarrow> e = InvalidChildCount)
   \<and> (children p = Single (Element c) \<longrightarrow>
        renderTarget p = Inr (cloneElement c [''onLayout'', ''ref''])
        \<and> renderTargetClone p = Inr (cloneElement c []))
   \<and> (Children_count (children p) \<noteq> 1 \<longrightarrow>
        renderTarget p = Inl InvalidChildCount
        \<and> renderTargetClone p = Inl InvalidChildCount)
   \<and> (\<not> single_element (children p) \<longrightarrow> render ev p st = Inl InvalidChildCount)"
  by (auto simp: renderTarget_def renderTargetClone_def render_def Children_only_def
      Children_count_def single_element_def
      split: children.splits node.splits sum.splits)

theorem tour_single_element_required_witness:
  "Children_count (Array [Element 1, Element 2]) \<noteq> 1
   \<and> renderTarget (example_props\<lparr>children := Array [Element 1, Element 2]\<rparr>)
       = Inl InvalidChildCount
   \<and> renderTargetClone (example_props\<lparr>children := Array [Element 1, Element 2]\<rparr>)
       = Inl InvalidChildCount
   \<and> render example_env (example_props\<lparr>children := Array [Element 1, Element 2]\<rparr>)
         constructor_state = Inl InvalidChildCount
   \<and> Children_count (Absent :: nat children) \<noteq> 1
   \<and> renderTarget (example_props\<lparr>children := Absent\<rparr>) = Inl InvalidChildCount
   \<and> renderTargetClone (example_props\<lparr>children := Absent\<rparr>) = Inl InvalidChildCount
   \<and> renderTarget example_props = Inr (cloneElement 0 [''onLayout'', ''ref''])
   \<and> renderTargetClone example_props = Inr (cloneElement 0 [])"
  using tour_single_element_required
    [of "example_props\<lparr>children := Array [Element 1, Element 2]\<rparr>" InvalidChildCount 0
        example_env constructor_state]
    tour_single_element_required
    [of "example_props\<lparr>children := Absent\<rparr>" InvalidChildCount 0 example_env
        constructor_state]
    tour_single_element_required
    [of example_props InvalidChildCount 0 example_env constructor_state]
  by (simp add: example_props_def Children_count_def single_element_def)

text \<open>
  The claim as first stated fails: an array that holds exactly one element is one
  child by count, and a single text is one child too, yet both are refused.
\<close>

theorem tour_one_child_refused:
  "Children_count (Array [Element (0::nat)]) = 1
   \<and> renderTarget (example_props\<lparr>children := Array [Element 0]\<rparr>) = Inl InvalidChildCount
   \<and> renderTargetClone (example_props\<lparr>children := Array [Element 0]\<rparr>)
       = Inl InvalidChildCount
   \<and> Children_count (Single (Text ''label'') :: nat children) = 1
   \<and> renderTarget (example_props\<lparr>children := Single (Text ''label'')\<rparr>)
       = Inl InvalidChildCount"
  by (simp add: example_props_def Children_count_def renderTarget_def renderTargetClone_def
      Children_only_def)

text \<open>
  Claim C8. The constructed state has no stored box, which is not the same as the
  zero box, and no props make it show the overlay. After a measurement of width 0 and
  height 0 the state holds that box, and with one element as child the overlay is on screen
  exactly when \<open>visible\<close> is true.
\<close>

theorem tour_unmeasured_differs_from_zero_size:
  "targetPosition constructor_state = None
   \<and> targetPosition constructor_state
       \<noteq> Some \<lparr>left = 0, top_edge = 0, width = 0, height = 0\<rparr>
   \<and> \<not> overlay_rendered (render ev p constructor_state)
   \<and> targetPosition (onTargetLayout x y 0 0 constructor_state)
       = Some \<lparr>left = x, top_edge = y, width = 0, height = 0\<rparr>
   \<and> overlay_rendered (render ev (p\<lparr>visible := True, children := Single (Element c)\<rparr>)
        (onTargetLayout x y 0 0 constructor_state))
   \<and> overlay_rendered (render ev (p\<lparr>children := Single (Element c)\<rparr>)
        (onTargetLayout x y 0 0 constructor_state)) = visible p"
proof -
  have "\<not> overlay_rendered (render ev p constructor_state)"
    using render_Inr_overlay(1) [of ev p constructor_state]
    by (cases "render ev p constructor_state")
       (simp_all add: overlay_rendered_def constructor_state_def)
  then show ?thesis
    by (simp add: overlay_rendered_iff) (simp add: constructor_state_def onTargetLayout_def)
qed

section \<open>Properties of Card.calcImagePosition\<close>

text \<open>
  Claim C10. With \<open>n\<close> children, index 0 gets the leading edge (\<open>left\<close> in a
  row, \<open>top\<close> otherwise), index \<open>n - 1\<close> gets the trailing edge (\<open>right\<close> in a
  row, \<open>bottom\<close> otherwise) appended, an only child gets both, and every other
  index gets the empty list.
\<close>

theorem card_calcImagePosition_edges:
  "calcImagePosition p i =
     (if i = 0 then [if row p then ''left'' else ''top''] else []) @
     (if i = int (length (card_children p)) - 1
      then [if row p then ''right'' else ''bottom''] else [])
   \<and> (i \<noteq> 0 \<and> i \<noteq> int (length (card_children p)) - 1 \<longrightarrow> calcImagePosition p i = [])
   \<and> (length (card_children p) = 1 \<longrightarrow>
        calcImagePosition p 0 =
          [if row p then ''left'' else ''top'', if row p then ''right'' else ''bottom''])
   \<and> (1 < length (card_children p) \<longrightarrow>
        calcImagePosition p 0 = [if row p then ''left'' else ''top'']
        \<and> calcImagePosition p (int (length (card_children p)) - 1)
            = [if row p then ''right'' else ''bottom''])"
  by (simp add: calcImagePosition_def)

theorem card_calcImagePosition_edges_witness:
  "calcImagePosition \<lparr>row = True, card_children = [0::nat, 1, 2]\<rparr> 0 = [''left'']
   \<and> calcImagePosition \<lparr>row = True, card_children = [0::nat, 1, 2]\<rparr> 1 = []
   \<and> calcImagePosition \<lparr>row = True, card_children = [0::nat, 1, 2]\<rparr> 2 = [''right'']
   \<and> calcImagePosition \<lparr>row = False, card_children = [0::nat]\<rparr> 0 = [''top'', ''bottom'']"
  using card_calcImagePosition_edges [of "\<lparr>row = True, card_children = [0::nat, 1, 2]\<rparr>" 0]
    card_calcImagePosition_edges [of "\<lparr>row = True, card_children = [0::nat, 1, 2]\<rparr>" 1]
    card_calcImagePosition_edges [of "\<lparr>row = True, card_children = [0::nat, 1, 2]\<rparr>" 2]
    card_calcImagePosition_edges [of "\<lparr>row = False, card_children = [0::nat]\<rparr>" 0]
  by simp

section \<open>Properties of Colors.alpha\<close>

subsection \<open>Rounding to a double stays within integer bounds\<close>

lemma round_even_le: "t \<le> of_int m \<Longrightarrow> round_even t \<le> m"
  unfolding round_even_def Let_def
  by (auto simp: floor_le_iff le_floor_iff)

lemma round_even_ge: "of_int m \<le> t \<Longrightarrow> m \<le> round_even t"
proof -
  assume "of_int m \<le> t"
  then have "m \<le> \<lfloor>t\<rfloor>" by (simp add: le_floor_iff)
  then show ?thesis unfolding round_even_def Let_def by auto
qed

lemma bitlen_pow_bounds:
  assumes "0 < p"
  shows "(2::rat) powi (bitlen p - 1) \<le> of_int p" "of_int p < (2::rat) powi bitlen p"
proof -
  have b: "1 \<le> bitlen p" using assms by (auto simp: bitlen_alt_def)
  from bitlen_bounds [OF assms]
  have "(2::int) ^ nat (bitlen p - 1) \<le> p" "p < 2 ^ nat (bitlen p)" by auto
  then have "(of_int ((2::int) ^ nat (bitlen p - 1)) :: rat) \<le> of_int p"
    "(of_int p :: rat) < of_int (2 ^ nat (bitlen p))"
    by (simp_all only: of_int_le_iff of_int_less_iff)
  then show "(2::rat) powi (bitlen p - 1) \<le> of_int p" "of_int p < (2::rat) powi bitlen p"
    using b by (simp_all add: power_int_def)
qed

lemma expo_bounds:
  assumes "0 < x"
  shows "2 powi expo x \<le> x" "x < 2 powi (expo x + 1)"
proof -
  obtain p q where pq: "quotient_of x = (p, q)" by (cases "quotient_of x")
  have q: "0 < q" using pq by (rule quotient_of_denom_pos)
  have x: "x = of_int p / of_int q" using pq by (rule quotient_of_div)
  have p: "0 < p" using assms q x by (simp add: zero_less_divide_iff)
  define a b where "a = bitlen p" and "b = bitlen q"
  have pa: "(2::rat) powi (a - 1) \<le> of_int p" "of_int p < (2::rat) powi a"
    using bitlen_pow_bounds [OF p] by (simp_all add: a_def)
  have qb: "(2::rat) powi (b - 1) \<le> of_int q" "of_int q < (2::rat) powi b"
    using bitlen_pow_bounds [OF q] by (simp_all add: b_def)
  have "(2::rat) powi (a - 1) / 2 powi b < of_int p / of_int q"
    using pa(1) qb(2) q by (intro frac_less2) simp_all
  moreover have "(2::rat) powi (a - b - 1) = 2 powi (a - 1) / 2 powi b"
    using power_int_diff [of "2::rat" "a - 1" b] by (simp add: algebra_simps)
  ultimately have lo: "2 powi (a - b - 1) < x" by (simp add: x)
  have "of_int p / of_int q < (2::rat) powi a / 2 powi (b - 1)"
    using pa(2) qb(1) p by (intro frac_less) simp_all
  moreover have "(2::rat) powi (a - b + 1) = 2 powi a / 2 powi (b - 1)"
    using power_int_diff [of "2::rat" a "b - 1"] by (simp add: algebra_simps)
  ultimately have hi: "x < 2 powi (a - b + 1)" by (simp add: x)
  have e: "expo x = (if 2 powi (a - b) \<le> x then a - b else a - b - 1)"
    by (simp add: expo_def pq a_def b_def)
  show "2 powi expo x \<le> x" using lo by (simp add: e)
  show "x < 2 powi (expo x + 1)" using hi by (simp add: e)
qed

lemma expo_le:
  assumes "0 < x" "x < 2 powi n"
  shows "expo x < n"
proof -
  have "(2::rat) powi expo x < 2 powi n"
    using expo_bounds(1) [OF assms(1)] assms(2) by simp
  then show ?thesis
    by (metis not_less power_int_increasing one_le_numeral)
qed

lemma fl_bounded:
  assumes "0 \<le> y" "y \<le> of_int m" "0 \<le> m" "m < 2 ^ 52"
  shows "\<exists>z. fl y = Fin z \<and> 0 \<le> z \<and> z \<le> of_int m"
proof (cases "y = 0")
  case True
  then show ?thesis using assms by (simp add: fl_def)
next
  case False
  then have pos: "0 < y" using assms(1) by simp
  have "y < 2 powi 53"
  proof -
    have "(of_int m :: rat) < of_int (2 ^ 52)" using assms(4) by (simp only: of_int_less_iff)
    then show ?thesis using assms(2) by simp
  qed
  then have e: "expo y < 53" using pos by (rule expo_le [rotated])
  define k where "k = max (expo y) (- 1022) - 52"
  define n where "n = nat (- k)"
  have k: "k \<le> 0" using e by (simp add: k_def)
  have "ulp y = 2 powi k" using pos by (simp add: ulp_def k_def)
  moreover have "k = - int n" using k by (simp add: n_def)
  ultimately have u: "ulp y = 1 / 2 ^ n"
    by (simp add: power_int_minus divide_inverse)
  define r where "r = round_even (y / ulp y)"
  have "y / ulp y \<le> of_int (m * 2 ^ n)" using assms(2) by (simp add: u)
  then have r_le: "r \<le> m * 2 ^ n" unfolding r_def by (rule round_even_le)
  have "of_int 0 \<le> y / ulp y" using pos by (simp add: u)
  then have r_ge: "0 \<le> r" unfolding r_def by (rule round_even_ge)
  define z where "z = of_int r * ulp y"
  have z0: "0 \<le> z" using r_ge by (simp add: z_def u)
  have "(of_int r :: rat) \<le> of_int (m * 2 ^ n)" using r_le by (simp only: of_int_le_iff)
  then have zm: "z \<le> of_int m" by (simp add: z_def u field_simps)
  have "(of_int m :: rat) < of_int (2 ^ 1024)"
    using assms(4) by (simp only: of_int_less_iff) simp
  then have "\<not> 2 ^ 1024 \<le> \<bar>z\<bar>" using z0 zm by simp
  then have "fl y = Fin z"
    using False by (simp add: fl_def Let_def r_def [symmetric] z_def [symmetric])
  then show ?thesis using z0 zm by blast
qed

lemma times_255_bounded:
  assumes "0 \<le> x" "x \<le> 1"
  shows "\<exists>z. js_times (Fin x) (Fin 255) = Fin z \<and> 0 \<le> z \<and> z \<le> 255"
proof -
  have "0 \<le> x * 255" "x * 255 \<le> of_int 255" using assms by simp_all
  from fl_bounded [OF this] show ?thesis by simp
qed

lemma Math_round_bounded:
  assumes "0 \<le> z" "z \<le> 255"
  shows "\<exists>a. Math_round (Fin z) = Fin (of_int a) \<and> 0 \<le> a \<and> a \<le> 255"
proof -
  have "0 \<le> \<lfloor>z + 1 / 2\<rfloor>" using assms(1) by simp
  moreover have "\<lfloor>z + 1 / 2\<rfloor> \<le> 255" using assms(2) by (simp add: floor_le_iff)
  ultimately show ?thesis by (simp add: Math_round_def)
qed

lemma decToHex_int:
  "0 \<le> a \<Longrightarrow> BaseConvert_decToHex (Fin (of_int a)) = hex_digits (nat a)"
  by (simp add: BaseConvert_decToHex_def)

lemma hex_digits_0: "hex_digits 0 = []"
  by (subst hex_digits.simps) simp

lemma hex_digits_small: "0 < n \<Longrightarrow> n < 16 \<Longrightarrow> hex_digits n = [hex_digit n]"
  by (subst hex_digits.simps) (simp add: hex_digits_0)

lemma pad_hex:
  assumes "n < 256"
  shows "slice_last 2 (''00'' @ hex_digits n) = [hex_digit (n div 16), hex_digit (n mod 16)]"
proof -
  consider "n = 0" | "0 < n" "n < 16" | "16 \<le> n" by linarith
  then show ?thesis
  proof cases
    case 1
    then show ?thesis by (simp add: hex_digits_0 slice_last_def hex_digit_def)
  next
    case 2
    then show ?thesis by (simp add: hex_digits_small slice_last_def hex_digit_def)
  next
    case 3
    then have "0 < n div 16" "n div 16 < 16" using assms by simp_all
    then have "hex_digits (n div 16) = [hex_digit (n div 16)]" by (rule hex_digits_small)
    then have "hex_digits n = [hex_digit (n div 16), hex_digit (n mod 16)]"
      using 3 by (subst hex_digits.simps) simp
    then show ?thesis by (simp add: slice_last_def)
  qed
qed

lemma slice_last_padded: "length (slice_last 2 (''00'' @ s)) = 2"
  by (simp add: slice_last_def)

lemma alpha_in_range:
  assumes "0 \<le> x" "x \<le> 1"
  shows "alpha h c (Number (Fin x)) =
           Inr (c @ slice_last 2 (''00'' @ h (Math_round (js_times (Fin x) (Fin 255)))))"
  using assms by (simp add: alpha_def ToNumber_def isNaN_def Let_def)

lemma alpha_default: "alpha h c Undefined = alpha h c (Number (Fin 1))"
  by (simp add: alpha_def)

lemma tail_one:
  "slice_last 2 (''00'' @ BaseConvert_decToHex (Math_round (js_times (Fin 1) (Fin 255))))
     = ''FF''"
  by code_simp

lemma tail_zero:
  "slice_last 2 (''00'' @ BaseConvert_decToHex (Math_round (js_times (Fin 0) (Fin 255))))
     = ''00''"
  by code_simp

lemma alpha_one: "alpha BaseConvert_decToHex c (Number (Fin 1)) = Inr (c @ ''FF'')"
proof -
  have "alpha BaseConvert_decToHex c (Number (Fin 1)) =
          Inr (c @ slice_last 2
             (''00'' @ BaseConvert_decToHex (Math_round (js_times (Fin 1) (Fin 255)))))"
    by (rule alpha_in_range) simp_all
  then show ?thesis by (simp only: tail_one)
qed

lemma alpha_half:
  "alpha BaseConvert_decToHex ''#20303C'' (Number (Fin (1 / 2))) = Inr ''#20303C80''"
  by code_simp

lemma alpha_tenth:
  "alpha BaseConvert_decToHex ''#20303C''
     (Number (Fin (3602879701896397 / 36028797018963968))) = Inr ''#20303C1A''"
  by code_simp

text \<open>
  Claim C9, as amended. For a numeric opacity \<open>x\<close> from 0 to 1, \<open>Math.round(x * 255)\<close>
  is an integer \<open>a\<close> from 0 to 255, and the result is the colour followed by exactly
  two characters, the last two of \<open>00\<close> and what \<open>decToHex\<close> returns for \<open>a\<close>,
  whatever that function is. With the \<open>decToHex\<close> of the imported package they are
  the upper-case base-16 digits of \<open>a div 16\<close> and \<open>a mod 16\<close>, so a value below 16
  is written with a leading \<open>0\<close>. Without the second argument the opacity is 1 and
  the suffix is \<open>FF\<close>; opacity 0 gives \<open>00\<close>.
\<close>

theorem alpha_appends_two_hex_digits:
  "(0 \<le> x \<and> x \<le> 1 \<longrightarrow>
      (\<exists>a. Math_round (js_times (Fin x) (Fin 255)) = Fin (of_int a) \<and> 0 \<le> a \<and> a \<le> 255
           \<and> alpha h c (Number (Fin x)) = Inr (c @ slice_last 2 (''00'' @ h (Fin (of_int a))))
           \<and> length (slice_last 2 (''00'' @ h (Fin (of_int a)))) = 2
           \<and> alpha BaseConvert_decToHex c (Number (Fin x))
               = Inr (c @ [hex_digit (nat a div 16), hex_digit (nat a mod 16)])))
   \<and> alpha h c Undefined = alpha h c (Number (Fin 1))
   \<and> alpha BaseConvert_decToHex c Undefined = Inr (c @ ''FF'')
   \<and> alpha BaseConvert_decToHex c (Number (Fin 1)) = Inr (c @ ''FF'')
   \<and> alpha BaseConvert_decToHex c (Number (Fin 0)) = Inr (c @ ''00'')"
proof (intro conjI impI)
  assume x: "0 \<le> x \<and> x \<le> 1"
  then obtain z where z: "js_times (Fin x) (Fin 255) = Fin z" "0 \<le> z" "z \<le> 255"
    using times_255_bounded by blast
  then obtain a where a: "Math_round (Fin z) = Fin (of_int a)" "0 \<le> a" "a \<le> 255"
    using Math_round_bounded by blast
  have r: "Math_round (js_times (Fin x) (Fin 255)) = Fin (of_int a)"
    by (simp only: z(1) a(1))
  have any: "alpha h c (Number (Fin x)) = Inr (c @ slice_last 2 (''00'' @ h (Fin (of_int a))))"
    for h
    using x by (simp only: alpha_in_range r)
  have "slice_last 2 (''00'' @ BaseConvert_decToHex (Fin (of_int a)))
          = [hex_digit (nat a div 16), hex_digit (nat a mod 16)]"
    using a(3) by (simp only: decToHex_int [OF a(2)]) (subst pad_hex, simp_all)
  then have "alpha BaseConvert_decToHex c (Number (Fin x))
               = Inr (c @ [hex_digit (nat a div 16), hex_digit (nat a mod 16)])"
    by (simp only: any)
  then show "\<exists>a. Math_round (js_times (Fin x) (Fin 255)) = Fin (of_int a) \<and> 0 \<le> a \<and> a \<le> 255
           \<and> alpha h c (Number (Fin x)) = Inr (c @ slice_last 2 (''00'' @ h (Fin (of_int a))))
           \<and> length (slice_last 2 (''00'' @ h (Fin (of_int a)))) = 2
           \<and> alpha BaseConvert_decToHex c (Number (Fin x))
               = Inr (c @ [hex_digit (nat a div 16), hex_digit (nat a mod 16)])"
    using r a(2,3) any [of h] slice_last_padded by blast
next
  show "alpha h c Undefined = alpha h c (Number (Fin 1))"
    by (rule alpha_default)
  show "alpha BaseConvert_decToHex c (Number (Fin 1)) = Inr (c @ ''FF'')"
    by (rule alpha_one)
  show "alpha BaseConvert_decToHex c Undefined = Inr (c @ ''FF'')"
    by (simp only: alpha_default alpha_one)
  have "alpha BaseConvert_decToHex c (Number (Fin 0)) =
          Inr (c @ slice_last 2
             (''00'' @ BaseConvert_decToHex (Math_round (js_times (Fin 0) (Fin 255)))))"
    by (rule alpha_in_range) simp_all
  then show "alpha BaseConvert_decToHex c (Number (Fin 0)) = Inr (c @ ''00'')"
    by (simp only: tail_zero)
qed

theorem alpha_appends_two_hex_digits_witness:
  "(0::rat) \<le> 1 / 2 \<and> (1::rat) / 2 \<le> 1
   \<and> (\<exists>a. Math_round (js_times (Fin (1 / 2)) (Fin 255)) = Fin (of_int a) \<and> 0 \<le> a \<and> a \<le> 255
        \<and> alpha BaseConvert_decToHex ''#20303C'' (Number (Fin (1 / 2)))
            = Inr (''#20303C'' @ [hex_digit (nat a div 16), hex_digit (nat a mod 16)]))"
  using alpha_appends_two_hex_digits [of "1 / 2" BaseConvert_decToHex "''#20303C''"]
  by auto

text \<open>
  The claim as first stated fails in the letter case: called without an opacity,
  the function appends \<open>FF\<close>, not \<open>ff\<close>.
\<close>

theorem alpha_default_suffix_is_upper_case:
  "alpha BaseConvert_decToHex ''#20303C'' Undefined = Inr ''#20303CFF''
   \<and> alpha BaseConvert_decToHex ''#20303C'' Undefined \<noteq> Inr (''#20303C'' @ ''ff'')"
  by (simp add: alpha_default alpha_one)




end
